theory Spec2Isabelle
  imports Main "HOL-Library.Word"
begin

section \<open>Python values, exceptions and text\<close>

text \<open>
  The exceptions that the modelled methods of \<^verbatim>\<open>minerl/env/core.py\<close> and
  \<^verbatim>\<open>minerl/env/observations.py\<close> can raise. \<^verbatim>\<open>socket.timeout\<close> and
  \<^verbatim>\<open>socket.error\<close> are the two transport exceptions caught by
  \<^verbatim>\<open>except (socket.timeout, socket.error)\<close>.
\<close>

datatype exn =
    SocketTimeout
  | SocketError
  | RuntimeError string
  | MissionInitException string
  | EnvException string
  | NotImplementedError string
  | AssertionError string
  | KeyError string
  | IndexError
  | AttributeError
  | TypeError
  | StructError
  | ValueError
  | UnicodeDecodeError
  | JSONDecodeError

fun is_socket_exn :: "exn \<Rightarrow> bool" where
  "is_socket_exn SocketTimeout = True"
| "is_socket_exn SocketError = True"
| "is_socket_exn _ = False"

fun is_runtime_error :: "exn \<Rightarrow> bool" where
  "is_runtime_error (RuntimeError _) = True"
| "is_runtime_error (NotImplementedError _) = True"
| "is_runtime_error _ = False"

text \<open>Python's \<^verbatim>\<open>str(n)\<close> for an integer: decimal digits, a minus sign when negative.\<close>

fun digits :: "nat \<Rightarrow> string" where
  "digits n = (if n < 10 then [''0123456789'' ! n]
               else digits (n div 10) @ [''0123456789'' ! (n mod 10)])"

declare digits.simps [simp del]

definition str_int :: "int \<Rightarrow> string" where
  "str_int i = (if i < 0 then ''-'' @ digits (nat (- i)) else digits (nat i))"

text \<open>\<^verbatim>\<open>str(b).lower()\<close> for a boolean.\<close>

definition str_bool :: "bool \<Rightarrow> string" where
  "str_bool b = (if b then ''True'' else ''False'')"

definition str_bool_lower :: "bool \<Rightarrow> string" where
  "str_bool_lower b = (if b then ''true'' else ''false'')"

text \<open>\<^verbatim>\<open>sep.join(parts)\<close>.\<close>

fun join :: "string \<Rightarrow> string list \<Rightarrow> string" where
  "join sep [] = []"
| "join sep [x] = x"
| "join sep (x # y # ys) = x @ sep @ join sep (y # ys)"

definition newline :: string where
  "newline = [CHR 0x0A]"

text \<open>
  The values an action component can carry. A float is carried as the text that
  \<^verbatim>\<open>str\<close> gives for it, and a numpy array as the \<^verbatim>\<open>str\<close> of each element of
  its flattening together with the \<^verbatim>\<open>str\<close> of the whole array: the code applies no
  other operation to either.
\<close>

datatype pyval =
    PyInt int
  | PyStr string
  | PyBool bool
  | PyFloat string
  | NdArray "string list" string

fun py_str :: "pyval \<Rightarrow> string" where
  "py_str (PyInt i) = str_int i"
| "py_str (PyStr s) = s"
| "py_str (PyBool b) = str_bool b"
| "py_str (PyFloat r) = r"
| "py_str (NdArray elems whole) = whole"

section \<open>Action marshalling: \<^verbatim>\<open>MineRLEnv._process_action\<close>\<close>

text \<open>
  The kinds of action space that \<^verbatim>\<open>_process_action\<close> tells apart:
  \<^verbatim>\<open>minerl.env.spaces.Enum\<close> with its tuple \<^verbatim>\<open>values\<close>, \<^verbatim>\<open>gym.spaces.Box\<close>, and any
  other space. \<^verbatim>\<open>action_space.spaces\<close> is a dictionary from component name to space.
\<close>

datatype space = Enum "string list" | Box | OtherSpace

type_synonym spaces = "(string \<times> space) list"

text \<open>Indexing a tuple with a Python integer: negative indices count from the end.\<close>

definition tuple_index :: "'a list \<Rightarrow> int \<Rightarrow> exn + 'a" where
  "tuple_index xs i =
     (if 0 \<le> i \<and> i < int (length xs) then Inr (xs ! nat i)
      else if i < 0 \<and> - int (length xs) \<le> i then Inr (xs ! nat (int (length xs) + i))
      else Inl IndexError)"

text \<open>
  The body of the loop before \<^verbatim>\<open>action_str.append\<close>: the value that
  \<^verbatim>\<open>action_in[act]\<close> holds afterwards, or the exception raised.
  \<^verbatim>\<open>np.issubdtype(type(v), np.integer)\<close> holds for integers only (not for booleans).
\<close>

fun enum_component :: "string \<Rightarrow> string list \<Rightarrow> pyval \<Rightarrow> exn + pyval" where
  "enum_component act vals (PyInt i) =
     (case tuple_index vals i of Inl e \<Rightarrow> Inl e | Inr v \<Rightarrow> Inr (PyStr v))"
| "enum_component act vals (PyStr s) =
     (if s \<in> set vals then Inr (PyStr s)
      else Inl (AssertionError (''Invalid string value for enum action '' @ act @ '', '' @ s)))"
| "enum_component act vals v =
     Inl (AssertionError (''Enum action '' @ act @ '' must be str or int. Value observed: ''
                           @ py_str v @ '' ''))"

fun box_component :: "string \<Rightarrow> pyval \<Rightarrow> exn + pyval" where
  "box_component act (PyStr s) =
     Inl (AssertionError (''Box action '' @ act @ '' is a string! It should be a ndarray: '' @ s))"
| "box_component act (NdArray elems whole) = Inr (PyStr (join '' '' elems))"
| "box_component act v = Inr v"

definition component :: "spaces \<Rightarrow> string \<Rightarrow> pyval \<Rightarrow> exn + pyval" where
  "component sp act v =
     (case map_of sp act of
        None \<Rightarrow> Inl (KeyError act)
      | Some (Enum vals) \<Rightarrow> enum_component act vals v
      | Some Box \<Rightarrow> box_component act v
      | Some OtherSpace \<Rightarrow> Inr v)"

text \<open>
  The loop \<^verbatim>\<open>for act in action_in\<close> over the action dictionary in insertion order,
  with \<^verbatim>\<open>action_str\<close> as the accumulator.
\<close>

fun process_components :: "spaces \<Rightarrow> (string \<times> pyval) list \<Rightarrow> string list \<Rightarrow> exn + string list" where
  "process_components sp [] action_str = Inr action_str"
| "process_components sp ((act, v) # rest) action_str =
     (case component sp act v of
        Inl e \<Rightarrow> Inl e
      | Inr v' \<Rightarrow> process_components sp rest (action_str @ [act @ '' '' @ py_str v']))"

definition process_action :: "spaces \<Rightarrow> (string \<times> pyval) list \<Rightarrow> exn + string" where
  "process_action sp action_in =
     (case process_components sp action_in [] of
        Inl e \<Rightarrow> Inl e
      | Inr action_str \<Rightarrow> Inr (join newline action_str))"

section \<open>Observation handlers: \<^verbatim>\<open>minerl/env/observations.py\<close>\<close>

text \<open>
  A frame is the pixel array of shape (height, width, depth). An inventory stack is a
  JSON object of which only the keys \<^verbatim>\<open>type\<close> and \<^verbatim>\<open>quantity\<close> are read; either
  may be absent. The info dictionary is the parsed JSON payload, of which the handlers
  read the keys \<^verbatim>\<open>inventory\<close> and \<^verbatim>\<open>pov\<close>.
\<close>

type_synonym frame = "8 word list list list"

record stack =
  stack_type :: "string option"
  quantity :: "int option"

record info =
  inventory :: "stack list option"
  pov :: "frame option"

text \<open>
  The declared observation space: a dictionary from key to space, where a nested
  dictionary space (as \<^verbatim>\<open>inventory\<close> is) is given by its keys in declaration order.
\<close>

datatype obs_space = DictSpace "string list" | PlainSpace

type_synonym obs_spaces = "(string \<times> obs_space) list"

datatype obs_value =
    Pov frame
  | Inventory "(string \<times> int) list"
  | Custom string

text \<open>\<^verbatim>\<open>inventory_dict[type_name] += q\<close>: \<^verbatim>\<open>None\<close> stands for the \<^verbatim>\<open>KeyError\<close>.\<close>

fun dict_add :: "(string \<times> int) list \<Rightarrow> string \<Rightarrow> int \<Rightarrow> (string \<times> int) list option" where
  "dict_add [] k q = None"
| "dict_add ((k', n) # d) k q =
     (if k' = k then Some ((k', n + q) # d)
      else (case dict_add d k q of None \<Rightarrow> None | Some d' \<Rightarrow> Some ((k', n) # d')))"

text \<open>The renaming of a stack's type: \<^verbatim>\<open>if type_name == 'log2': type_name = 'log'\<close>.\<close>

definition item_name :: "string \<Rightarrow> string" where
  "item_name type_name = (if type_name = ''log2'' then ''log'' else type_name)"

text \<open>The loop \<^verbatim>\<open>for stack in info['inventory']\<close>.\<close>

fun count_stacks :: "stack list \<Rightarrow> (string \<times> int) list \<Rightarrow> (string \<times> int) list" where
  "count_stacks [] inventory_dict = inventory_dict"
| "count_stacks (st # rest) inventory_dict =
     (case (stack_type st, quantity st) of
        (Some t, Some q) \<Rightarrow>
          (case dict_add inventory_dict (item_name t) q of
             Some d' \<Rightarrow> count_stacks rest d'
           | None \<Rightarrow> count_stacks rest inventory_dict)
      | _ \<Rightarrow> count_stacks rest inventory_dict)"

definition inventory_observation :: "info \<Rightarrow> obs_spaces \<Rightarrow> exn + obs_value" where
  "inventory_observation info obs_space =
     (case map_of obs_space ''inventory'' of
        None \<Rightarrow> Inl (KeyError ''inventory'')
      | Some PlainSpace \<Rightarrow> Inl AttributeError
      | Some (DictSpace inventory_spaces) \<Rightarrow>
          (let inventory_dict = map (\<lambda>k. (k, 0)) inventory_spaces
           in (case inventory info of
                 Some stacks \<Rightarrow> Inr (Inventory (count_stacks stacks inventory_dict))
               | None \<Rightarrow> Inr (Inventory inventory_dict))))"

definition pov_observation :: "info \<Rightarrow> obs_spaces \<Rightarrow> exn + obs_value" where
  "pov_observation info obs_space =
     (case pov info of None \<Rightarrow> Inl (KeyError ''pov'') | Some p \<Rightarrow> Inr (Pov p))"

section \<open>The environment object and the world it talks to\<close>

text \<open>
  Time is counted in milliseconds: \<^verbatim>\<open>time.time()\<close> reads \<open>clock\<close>, and
  \<^verbatim>\<open>time.sleep(0.1)\<close> adds 100 to it.
\<close>

definition MAX_WAIT :: nat where
  "MAX_WAIT = 80"

definition SOCKTIME :: nat where
  "SOCKTIME = 60 * 4"

definition STEP_OPTIONS :: int where
  "STEP_OPTIONS = 0"

type_synonym bytes = string

text \<open>
  What one blocking call on the socket (connect, send or receive) comes to: it
  completes, carrying the message received (ignored by connect and send), or it raises
  \<^verbatim>\<open>socket.timeout\<close> or \<^verbatim>\<open>socket.error\<close>.
\<close>

datatype outcome = Completes bytes | TimesOut | Breaks

text \<open>
  The state: the attributes of \<^verbatim>\<open>MineRLEnv\<close> that the protocol methods read and write
  (\<open>done_flag\<close> is \<^verbatim>\<open>self.done\<close>, \<open>seed_value\<close> is \<^verbatim>\<open>self._seed\<close>,
  \<open>instance_handle\<close> is \<^verbatim>\<open>self.instance\<close>, \<open>xml\<close> is \<^verbatim>\<open>etree.tostring(self.xml)\<close>),
  followed by the world outside the object:
  \<^item> \<open>network\<close>: for each coming socket call in turn, the milliseconds it blocks and
    its outcome; once the list is used up the remote is silent and every call times out
    after \<open>SOCKTIME\<close> seconds;
  \<^item> \<open>sent\<close>: the messages put on the wire so far;
  \<^item> \<open>launches\<close>: whether each coming \<^verbatim>\<open>instance.launch()\<close> succeeds (\<open>False\<close> is
    \<^verbatim>\<open>IntermittentBuildError\<close>); launches beyond the list succeed;
  \<^item> \<open>killed\<close>: the instance handles on which \<^verbatim>\<open>kill()\<close> was called, in order;
  \<^item> \<open>next_handle\<close>, \<open>next_socket\<close>: the identities of the next instance and socket
    objects to be created;
  \<^item> \<open>bind_logged\<close>: what each coming \<^verbatim>\<open>log_shows_bind_exception()\<close> finds in the
    instance's log; \<open>False\<close> beyond the list.
  The instance is a handle; \<^verbatim>\<open>self.instance\<close> is only ever assigned the result of
  \<^verbatim>\<open>_robust_launch_new_instance\<close>, which returns a launched instance or raises, so the
  guard \<^verbatim>\<open>if self.instance\<close> is always taken.
\<close>

record env =
  has_init :: bool
  xml :: bytes
  exp_uid :: string
  role :: int
  agent_count :: int
  synchronous :: bool
  resets :: int
  seed_value :: "int option"
  done_flag :: bool
  had_to_clean :: bool
  client_socket :: "nat option"
  instance_handle :: nat
  width :: nat
  height :: nat
  depth :: nat
  last_pov :: "frame option"
  clock :: nat
  network :: "(nat \<times> outcome) list"
  sent :: "bytes list"
  launches :: "bool list"
  killed :: "nat list"
  next_handle :: nat
  next_socket :: nat
  bind_logged :: "bool list"

text \<open>A method: from a state to the value returned or the exception raised, and the state left.\<close>

type_synonym 'a prog = "env \<Rightarrow> (exn + 'a) \<times> env"

definition and_then :: "'a prog \<Rightarrow> ('a \<Rightarrow> 'b prog) \<Rightarrow> 'b prog" where
  "and_then m f s = (case m s of (Inl e, s') \<Rightarrow> (Inl e, s') | (Inr x, s') \<Rightarrow> f x s')"

definition return :: "'a \<Rightarrow> 'a prog" where
  "return x s = (Inr x, s)"

definition raise :: "exn \<Rightarrow> 'a prog" where
  "raise e s = (Inl e, s)"

definition lift :: "exn + 'a \<Rightarrow> 'a prog" where
  "lift r s = (r, s)"

definition sleep :: "nat \<Rightarrow> unit prog" where
  "sleep ms s = (Inr (), s\<lparr>clock := clock s + ms\<rparr>)"

subsection \<open>The framed transport\<close>

text \<open>The next socket call of the world.\<close>

definition socket_call :: "bytes prog" where
  "socket_call s =
     (case network s of
        [] \<Rightarrow> (Inl SocketTimeout, s\<lparr>clock := clock s + SOCKTIME * 1000\<rparr>)
      | (ms, Completes b) # rest \<Rightarrow> (Inr b, s\<lparr>clock := clock s + ms, network := rest\<rparr>)
      | (ms, TimesOut) # rest \<Rightarrow> (Inl SocketTimeout, s\<lparr>clock := clock s + ms, network := rest\<rparr>)
      | (ms, Breaks) # rest \<Rightarrow> (Inl SocketError, s\<lparr>clock := clock s + ms, network := rest\<rparr>))"

text \<open>
  Modelled from the spec: \<^verbatim>\<open>comms.send_message\<close> and \<^verbatim>\<open>comms.recv_message\<close>
  (\<^verbatim>\<open>minerl/env/comms.py\<close>), the framed transport: each call sends or receives exactly
  one message on the given socket, blocking with a bounded timeout, and raises a
  transport error otherwise. A call on \<^verbatim>\<open>None\<close> in place of a socket raises
  \<^verbatim>\<open>AttributeError\<close>.
\<close>

definition send_message :: "nat option \<Rightarrow> bytes \<Rightarrow> unit prog" where
  "send_message sock msg s =
     (case sock of
        None \<Rightarrow> (Inl AttributeError, s)
      | Some _ \<Rightarrow>
          (case socket_call s of
             (Inl e, s') \<Rightarrow> (Inl e, s')
           | (Inr _, s') \<Rightarrow> (Inr (), s'\<lparr>sent := sent s' @ [msg]\<rparr>)))"

definition recv_message :: "nat option \<Rightarrow> bytes prog" where
  "recv_message sock s =
     (case sock of
        None \<Rightarrow> (Inl AttributeError, s)
      | Some _ \<Rightarrow> socket_call s)"

subsection \<open>\<^verbatim>\<open>struct.unpack\<close>\<close>

text \<open>Format \<^verbatim>\<open>!b\<close>: one signed byte.\<close>

definition signed_byte :: "char \<Rightarrow> int" where
  "signed_byte c = (let n = (of_char c :: nat) in if n < 128 then int n else int n - 256)"

definition unpack_b :: "bytes \<Rightarrow> exn + int" where
  "unpack_b reply = (case reply of [c] \<Rightarrow> Inr (signed_byte c) | _ \<Rightarrow> Inl StructError)"

text \<open>Big-endian value of a byte string.\<close>

definition be_nat :: "bytes \<Rightarrow> nat" where
  "be_nat bs = foldl (\<lambda>acc c. acc * 256 + of_char c) 0 bs"

text \<open>Format \<^verbatim>\<open>!I\<close>: four bytes, an unsigned big-endian integer.\<close>

definition unpack_I :: "bytes \<Rightarrow> exn + nat" where
  "unpack_I reply = (if length reply = 4 then Inr (be_nat reply) else Inl StructError)"

text \<open>
  Format \<^verbatim>\<open>!dbb\<close>: eight bytes of a double, kept as its 64-bit pattern, and two
  signed bytes.
\<close>

definition unpack_dbb :: "bytes \<Rightarrow> exn + (64 word \<times> int \<times> int)" where
  "unpack_dbb reply =
     (if length reply = 10
      then Inr (word_of_nat (be_nat (take 8 reply)), signed_byte (reply ! 8), signed_byte (reply ! 9))
      else Inl StructError)"

subsection \<open>What the environment is constructed with\<close>

text \<open>
  The parts of the environment that never change after construction, and the library
  functions whose results are taken as given:
  \<^item> \<open>action_space\<close>, \<open>observation_space\<close>: the \<^verbatim>\<open>spaces\<close> dictionaries of the two
    declared spaces; \<open>observation_sample\<close> is what \<^verbatim>\<open>observation_space.sample()\<close> gives;
  \<^item> \<open>obs_handlers\<close>: the registry from observation key to handler;
  \<^item> \<open>utf8_decode\<close>: \<^verbatim>\<open>bytes.decode('utf-8')\<close>, \<open>None\<close> for \<^verbatim>\<open>UnicodeDecodeError\<close>;
  \<^item> \<open>json_loads\<close>: \<^verbatim>\<open>json.loads\<close>, \<open>None\<close> for \<^verbatim>\<open>JSONDecodeError\<close>;
  \<^item> \<open>mission\<close>: what \<^verbatim>\<open>init\<close> makes of the mission file, either the exception it
    raises or the serialised document with the frame width, height and depth;
  \<^item> \<open>uuid4\<close>: the experiment id that \<^verbatim>\<open>uuid.uuid4()\<close> gives;
  \<^item> \<open>malmo_version\<close>: the constant of \<^verbatim>\<open>minerl.env.malmo\<close>;
  \<^item> \<open>retry_budget\<close>: how many further attempts the retry wrapper makes after the first.
\<close>

type_synonym observation = "(string \<times> obs_value) list"

type_synonym handler = "info \<Rightarrow> obs_spaces \<Rightarrow> exn + obs_value"

record config =
  action_space :: spaces
  observation_space :: obs_spaces
  observation_sample :: observation
  obs_handlers :: "string \<Rightarrow> handler option"
  utf8_decode :: "bytes \<Rightarrow> string option"
  json_loads :: "string \<Rightarrow> info option"
  mission :: "exn + (bytes \<times> nat \<times> nat \<times> nat)"
  uuid4 :: string
  malmo_version :: string
  retry_budget :: nat

text \<open>
  \<^verbatim>\<open>DEFAULT_OBS_HANDLERS\<close>. The source of \<^verbatim>\<open>compass_observation\<close> is not part of
  \<^verbatim>\<open>observations.py\<close> as given, so the handler is a parameter.
\<close>

definition DEFAULT_OBS_HANDLERS :: "handler \<Rightarrow> string \<Rightarrow> handler option" where
  "DEFAULT_OBS_HANDLERS compass_observation =
     [''pov'' \<mapsto> pov_observation,
      ''inventory'' \<mapsto> inventory_observation,
      ''compassAngle'' \<mapsto> compass_observation]"

section \<open>Launching instances and the recovery procedure\<close>

text \<open>
  \<^verbatim>\<open>_attempt_launch_new_instance\<close>: a new instance object is taken from the manager and
  launched; on \<^verbatim>\<open>IntermittentBuildError\<close> it is killed and \<^verbatim>\<open>None\<close> is returned.
\<close>

definition attempt_launch_new_instance :: "env \<Rightarrow> nat option \<times> env" where
  "attempt_launch_new_instance s =
     (let inst = next_handle s;
          s1 = s\<lparr>next_handle := next_handle s + 1\<rparr>
      in (case launches s1 of
            [] \<Rightarrow> (Some inst, s1)
          | True # rest \<Rightarrow> (Some inst, s1\<lparr>launches := rest\<rparr>)
          | False # rest \<Rightarrow> (None, s1\<lparr>launches := rest, killed := killed s1 @ [inst]\<rparr>)))"

text \<open>
  \<^verbatim>\<open>_robust_launch_new_instance\<close>: the loop \<^verbatim>\<open>for i in range(max_tries)\<close>, with the
  number of tries left as the first argument, and three seconds of sleep after a failed
  try.
\<close>

fun launch_tries :: "nat \<Rightarrow> nat \<Rightarrow> nat prog" where
  "launch_tries 0 max_tries s =
     (Inl (RuntimeError (''Failed to build and launch Minecraft instance ''
                          @ str_int (int max_tries) @ '' times. Giving up.'')), s)"
| "launch_tries (Suc n) max_tries s =
     (case attempt_launch_new_instance s of
        (Some inst, s') \<Rightarrow> (Inr inst, s')
      | (None, s') \<Rightarrow> launch_tries n max_tries (s'\<lparr>clock := clock s' + 3000\<rparr>))"

definition robust_launch_new_instance :: "nat \<Rightarrow> nat prog" where
  "robust_launch_new_instance max_tries = launch_tries max_tries max_tries"

text \<open>
  \<^verbatim>\<open>_clean_connection\<close>. Shutting the socket down and closing it cannot raise out of
  the method (the \<^verbatim>\<open>except\<close> clause swallows what they raise), and \<^verbatim>\<open>log_error\<close> only
  reads the log file, so both leave the state as it is.
\<close>

definition clean_connection :: "unit prog" where
  "clean_connection s =
     (let s1 = s\<lparr>client_socket := None\<rparr>
      in if had_to_clean s1
         then (let s2 = s1\<lparr>killed := killed s1 @ [instance_handle s1]\<rparr>
               in (case robust_launch_new_instance 3 s2 of
                     (Inl e, s3) \<Rightarrow> (Inl e, s3)
                   | (Inr inst, s3) \<Rightarrow>
                       (Inr (), s3\<lparr>instance_handle := inst, had_to_clean := False\<rparr>)))
         else (Inr (), s1\<lparr>had_to_clean := True\<rparr>))"

section \<open>Observation marshalling: \<^verbatim>\<open>MineRLEnv._process_observation\<close>\<close>

text \<open>\<^verbatim>\<open>reshape\<close>: the first \<open>k\<close> consecutive pieces of length \<open>n\<close>.\<close>

primrec pieces :: "nat \<Rightarrow> nat \<Rightarrow> 'a list \<Rightarrow> 'a list list" where
  "pieces 0 n xs = []"
| "pieces (Suc k) n xs = take n xs # pieces k n (drop n xs)"

definition reshape :: "nat \<Rightarrow> nat \<Rightarrow> nat \<Rightarrow> 8 word list \<Rightarrow> frame" where
  "reshape h w d buf = map (pieces w d) (pieces h (w * d) buf)"

definition zeros :: "nat \<Rightarrow> nat \<Rightarrow> nat \<Rightarrow> frame" where
  "zeros h w d = replicate h (replicate w (replicate d 0))"

text \<open>
  The pixel array: zero-filled for an empty buffer, otherwise reshaped (which raises
  \<^verbatim>\<open>ValueError\<close> when the size does not fit) and flipped top to bottom.
\<close>

definition frame_of :: "env \<Rightarrow> bytes \<Rightarrow> exn + frame" where
  "frame_of s raw =
     (let buf = map (\<lambda>c. word_of_nat (of_char c)) raw
      in if length buf = 0 then Inr (zeros (height s) (width s) (depth s))
         else if length buf \<noteq> height s * width s * depth s then Inl ValueError
         else Inr (rev (reshape (height s) (width s) (depth s) buf)))"

text \<open>
  The loop over the keys of the observation space. A \<^verbatim>\<open>KeyError\<close>, from the registry
  or from inside a handler, makes the method return the empty dictionary.
\<close>

fun run_handlers :: "config \<Rightarrow> info \<Rightarrow> string list \<Rightarrow> observation \<Rightarrow> exn + observation" where
  "run_handlers cfg info [] obs_dict = Inr obs_dict"
| "run_handlers cfg info (key # keys) obs_dict =
     (case obs_handlers cfg key of
        None \<Rightarrow> Inr []
      | Some handler_fn \<Rightarrow>
          (case handler_fn info (observation_space cfg) of
             Inl (KeyError k) \<Rightarrow> Inr []
           | Inl e \<Rightarrow> Inl e
           | Inr v \<Rightarrow> run_handlers cfg info keys (obs_dict @ [(key, v)])))"

definition process_observation :: "config \<Rightarrow> bytes \<Rightarrow> string \<Rightarrow> observation prog" where
  "process_observation cfg raw info_text s =
     (case frame_of s raw of
        Inl e \<Rightarrow> (Inl e, s)
      | Inr p \<Rightarrow>
          (case (if info_text \<noteq> [] then json_loads cfg info_text
                 else Some \<lparr>inventory = None, pov = None\<rparr>) of
             None \<Rightarrow> (Inl JSONDecodeError, s)
           | Some info \<Rightarrow>
               (run_handlers cfg (info\<lparr>pov := Some p\<rparr>) (map fst (observation_space cfg)) [],
                s\<lparr>last_pov := Some p\<rparr>)))"

section \<open>The protocol methods of \<^verbatim>\<open>MineRLEnv\<close>\<close>

text \<open>Sending and receiving on \<^verbatim>\<open>self.client_socket\<close>.\<close>

definition send_client :: "bytes \<Rightarrow> unit prog" where
  "send_client msg s = send_message (client_socket s) msg s"

definition recv_client :: "bytes prog" where
  "recv_client s = recv_message (client_socket s) s"

definition decode :: "config \<Rightarrow> bytes \<Rightarrow> exn + string" where
  "decode cfg b = (case utf8_decode cfg b of None \<Rightarrow> Inl UnicodeDecodeError | Some t \<Rightarrow> Inr t)"

subsection \<open>\<^verbatim>\<open>_peek_obs\<close>\<close>

text \<open>
  The branch of \<^verbatim>\<open>_peek_obs\<close> for an empty pixel buffer: past \<open>MAX_WAIT\<close> seconds
  since \<open>start_time\<close> the socket is closed and dropped and \<^verbatim>\<open>MissionInitException\<close> is
  raised; otherwise the method sleeps a tenth of a second.
\<close>

definition empty_buffer_check :: "nat \<Rightarrow> bytes \<Rightarrow> unit prog" where
  "empty_buffer_check start_time obs s =
     (if length obs = 0
      then (if clock s - start_time > MAX_WAIT * 1000
            then (Inl (MissionInitException ''too long waiting for first observation''),
                  s\<lparr>client_socket := None\<rparr>)
            else sleep 100 s)
      else (Inr (), s))"

definition first_frame_check :: "unit prog" where
  "first_frame_check s =
     (if done_flag s
      then (Inl (RuntimeError (''Something went wrong resetting the environment! ''
                                @ ''`done` was true on first frame.'')), s)
      else (Inr (), s))"

text \<open>
  \<^verbatim>\<open>_peek_obs\<close>. The body is guarded by \<^verbatim>\<open>if not self.done\<close>; when the flag is set the
  method goes on to \<^verbatim>\<open>_process_observation(None, None)\<close>, where \<^verbatim>\<open>np.frombuffer\<close>
  raises \<^verbatim>\<open>TypeError\<close>.
\<close>

definition peek_obs :: "config \<Rightarrow> observation prog" where
  "peek_obs cfg s =
     (let start_time = clock s
      in if \<not> done_flag s
         then and_then (send_client ''<Peek/>'') (\<lambda>_.
              and_then recv_client (\<lambda>obs.
              and_then recv_client (\<lambda>info_raw.
              and_then (lift (decode cfg info_raw)) (\<lambda>info.
              and_then recv_client (\<lambda>reply.
              and_then (lift (unpack_b reply)) (\<lambda>done_byte.
              and_then (\<lambda>s'. (Inr (), s'\<lparr>done_flag := (done_byte = 1)\<rparr>)) (\<lambda>_.
              and_then (empty_buffer_check start_time obs) (\<lambda>_.
              and_then first_frame_check (\<lambda>_.
              process_observation cfg obs info))))))))) s
         else (Inl TypeError, s))"

subsection \<open>\<^verbatim>\<open>_quit_episode\<close>, \<^verbatim>\<open>seed\<close> and \<^verbatim>\<open>_get_token\<close>\<close>

definition quit_episode :: "bool prog" where
  "quit_episode =
     and_then (send_client ''<Quit/>'') (\<lambda>_.
     and_then recv_client (\<lambda>reply.
     and_then (lift (unpack_I reply)) (\<lambda>ok.
     return (ok \<noteq> 0))))"

text \<open>\<^verbatim>\<open>seed\<close>: the argument is an integer (anything else fails the assertion).\<close>

definition seed :: "int \<Rightarrow> env \<Rightarrow> env" where
  "seed v s = s\<lparr>seed_value := Some v\<rparr>"

definition get_token :: "env \<Rightarrow> string" where
  "get_token s = exp_uid s @ '':'' @ str_int (role s) @ '':'' @ str_int (resets s)"

subsection \<open>\<^verbatim>\<open>step\<close>\<close>

datatype number = Float64 "64 word" | Integer int

type_synonym step_result = "observation \<times> number \<times> bool \<times> (string \<times> string) list"

text \<open>
  The branch \<^verbatim>\<open>if not self.done\<close> of the \<^verbatim>\<open>try\<close> block of \<^verbatim>\<open>step\<close>: one request
  and its replies. With \<open>withinfo\<close> false the info is \<^verbatim>\<open>{}\<close>, which
  \<^verbatim>\<open>_process_observation\<close> treats as it does the empty text.
\<close>

definition step_exchange :: "config \<Rightarrow> string \<Rightarrow> step_result prog" where
  "step_exchange cfg malmo_command =
     (let withinfo = (STEP_OPTIONS = 0 \<or> STEP_OPTIONS = 2);
          step_message = ''<Step'' @ str_int STEP_OPTIONS @ ''>'' @ malmo_command
                         @ ''</Step'' @ str_int STEP_OPTIONS @ '' >''
      in and_then (send_client step_message) (\<lambda>_.
         and_then recv_client (\<lambda>obs.
         and_then recv_client (\<lambda>reply.
         and_then (lift (unpack_dbb reply)) (\<lambda>(reward, done_byte, sent_byte).
         and_then (if withinfo
                   then and_then recv_client (\<lambda>info_raw. lift (decode cfg info_raw))
                   else return []) (\<lambda>info.
         and_then (process_observation cfg obs info) (\<lambda>out_obs.
         and_then (\<lambda>s'. (Inr (), s'\<lparr>done_flag := (done_byte = 1)\<rparr>)) (\<lambda>_ s'.
         (Inr (out_obs, Float64 reward, done_flag s', []), s')))))))))"

text \<open>The whole \<^verbatim>\<open>try\<close> block.\<close>

definition step_try :: "config \<Rightarrow> string \<Rightarrow> step_result prog" where
  "step_try cfg malmo_command s =
     (if \<not> done_flag s then step_exchange cfg malmo_command s
      else (Inl (RuntimeError ''Attempted to step an environment with done=True''), s))"

text \<open>
  \<^verbatim>\<open>step\<close>: the action is marshalled before the \<^verbatim>\<open>try\<close> block; the \<^verbatim>\<open>except\<close>
  clause takes the two transport exceptions only.
\<close>

definition step :: "config \<Rightarrow> (string \<times> pyval) list \<Rightarrow> step_result prog" where
  "step cfg action s =
     (case process_action (action_space cfg) action of
        Inl e \<Rightarrow> (Inl e, s)
      | Inr malmo_command \<Rightarrow>
          (case step_try cfg malmo_command s of
             (Inr r, s1) \<Rightarrow> (Inr r, s1)
           | (Inl e, s1) \<Rightarrow>
               if is_socket_exn e
               then (case clean_connection s1 of
                       (Inl e', s2) \<Rightarrow> (Inl e', s2)
                     | (Inr _, s2) \<Rightarrow>
                         (let s3 = s2\<lparr>done_flag := True\<rparr>
                          in (Inr (observation_sample cfg, Integer 0, done_flag s3,
                                   [(''error'', ''Connection timed out!'')]), s3)))
               else (Inl e, s1)))"

subsection \<open>\<^verbatim>\<open>_init_mission\<close>\<close>

text \<open>The token that \<^verbatim>\<open>_init_mission\<close> builds and sends after the mission document.\<close>

definition mission_token :: "env \<Rightarrow> string" where
  "mission_token s =
     get_token s @ '':'' @ str_int (agent_count s) @ '':'' @ str_bool_lower (synchronous s)
     @ (case seed_value s of None \<Rightarrow> [] | Some v \<Rightarrow> '':'' @ str_int v)"

definition log_shows_bind_exception :: "env \<Rightarrow> bool \<times> env" where
  "log_shows_bind_exception s =
     (case bind_logged s of [] \<Rightarrow> (False, s) | b # rest \<Rightarrow> (b, s\<lparr>bind_logged := rest\<rparr>))"

text \<open>
  The loop \<^verbatim>\<open>while ok != 1\<close> of \<^verbatim>\<open>_init_mission\<close>, with \<open>num_retries\<close> as argument.
  It ends after at most \<open>MAX_WAIT + 1\<close> rounds, since the round that takes
  \<open>num_retries\<close> past \<open>MAX_WAIT\<close> raises \<^verbatim>\<open>socket.timeout\<close>.
\<close>

function init_mission_loop :: "nat \<Rightarrow> unit prog" where
  "init_mission_loop num_retries s =
     (case send_client (xml s) s of
        (Inl e, s1) \<Rightarrow> (Inl e, s1)
      | (Inr _, s1) \<Rightarrow>
     (case send_client (mission_token s1) s1 of
        (Inl e, s2) \<Rightarrow> (Inl e, s2)
      | (Inr _, s2) \<Rightarrow>
     (case recv_client s2 of
        (Inl e, s3) \<Rightarrow> (Inl e, s3)
      | (Inr reply, s3) \<Rightarrow>
     (case unpack_I reply of
        Inl e \<Rightarrow> (Inl e, s3)
      | Inr ok \<Rightarrow>
          if ok \<noteq> 1
          then (if num_retries + 1 > MAX_WAIT then (Inl SocketTimeout, s3)
                else (case log_shows_bind_exception s3 of
                        (True, s4) \<Rightarrow>
                          (Inl (RuntimeError ''Port is unusable''), s4\<lparr>had_to_clean := True\<rparr>)
                      | (False, s4) \<Rightarrow>
                          init_mission_loop (num_retries + 1) (s4\<lparr>clock := clock s4 + 1000\<rparr>)))
          else (Inr (), s3)))))"
  by pat_completeness auto
termination
  by (relation "measure (\<lambda>(num_retries, s). MAX_WAIT + 1 - num_retries)") auto

declare init_mission_loop.simps [simp del]

definition init_mission :: "unit prog" where
  "init_mission = init_mission_loop 0"

subsection \<open>\<^verbatim>\<open>_start_up\<close>\<close>

text \<open>
  Opening the connection when there is none: a new socket is connected and greeted,
  and only then stored in \<^verbatim>\<open>self.client_socket\<close>.
\<close>

definition connect :: "config \<Rightarrow> unit prog" where
  "connect cfg s =
     (if client_socket s = None
      then (let sock = next_socket s
            in and_then socket_call (\<lambda>_.
               and_then (send_message (Some sock) (''<MalmoEnv'' @ malmo_version cfg @ ''/>'')) (\<lambda>_ s'.
               (Inr (), s'\<lparr>client_socket := Some sock\<rparr>))) (s\<lparr>next_socket := sock + 1\<rparr>))
      else (Inr (), s))"

text \<open>
  One run of the body of \<^verbatim>\<open>_start_up\<close>, without the \<^verbatim>\<open>@retry\<close> wrapper: the
  \<^verbatim>\<open>try\<close> block first, then the whole body with the counting of resets and the two
  \<^verbatim>\<open>except\<close> clauses. An exception raised by \<^verbatim>\<open>_clean_connection\<close> inside a handler
  replaces the one being handled.
\<close>

definition start_up_try :: "config \<Rightarrow> observation prog" where
  "start_up_try cfg =
     and_then (connect cfg) (\<lambda>_.
     and_then init_mission (\<lambda>_.
     and_then (\<lambda>s'. (Inr (), s'\<lparr>done_flag := False\<rparr>)) (\<lambda>_.
     peek_obs cfg)))"

definition start_up_once :: "config \<Rightarrow> observation prog" where
  "start_up_once cfg s =
     (case start_up_try cfg (s\<lparr>resets := resets s + 1\<rparr>) of
        (Inr obs, s1) \<Rightarrow> (Inr obs, s1)
      | (Inl e, s1) \<Rightarrow>
          if is_socket_exn e
          then (case clean_connection s1 of
                  (Inl e', s2) \<Rightarrow> (Inl e', s2)
                | (Inr _, s2) \<Rightarrow> (Inl e, s2))
          else if is_runtime_error e
          then (case clean_connection (s1\<lparr>had_to_clean := True\<rparr>) of
                  (Inl e', s2) \<Rightarrow> (Inl e', s2)
                | (Inr _, s2) \<Rightarrow> (Inl e, s2))
          else (Inl e, s1))"

text \<open>
  Modelled from the spec: the decorator \<^verbatim>\<open>comms.retry\<close> (\<^verbatim>\<open>minerl/env/comms.py\<close>), an
  outer bounded-retry wrapper: the wrapped procedure is run again after a failure, up to
  a fixed attempt budget, and exceeding the budget surfaces the final exception to the
  caller. The first argument is the number of attempts left after the next one.
\<close>

primrec retry :: "nat \<Rightarrow> 'a prog \<Rightarrow> 'a prog" where
  "retry 0 f s = f s"
| "retry (Suc n) f s =
     (case f s of (Inr x, s') \<Rightarrow> (Inr x, s') | (Inl e, s') \<Rightarrow> retry n f s')"

definition start_up :: "config \<Rightarrow> observation prog" where
  "start_up cfg = retry (retry_budget cfg) (start_up_once cfg)"

subsection \<open>\<^verbatim>\<open>init\<close> and \<^verbatim>\<open>reset\<close>\<close>

text \<open>
  \<^verbatim>\<open>init\<close>, as far as the protocol needs it: the reading and checking of the mission
  file is the given \<open>mission\<close>; on success the session identity and the frame geometry
  are stored and \<open>has_init\<close> is set. The attributes that a failing \<^verbatim>\<open>init\<close> had
  assigned before it raised are not tracked: \<open>has_init\<close> stays false, and the next
  \<^verbatim>\<open>init\<close> assigns them again.
\<close>

definition init :: "config \<Rightarrow> unit prog" where
  "init cfg s =
     (case mission cfg of
        Inl e \<Rightarrow> (Inl e, s)
      | Inr (doc, w, h, d) \<Rightarrow>
          (Inr (), s\<lparr>xml := doc, role := 0, exp_uid := uuid4 cfg, agent_count := 1,
                     width := w, height := h, depth := d, has_init := True\<rparr>))"

text \<open>
  The loop \<^verbatim>\<open>while not self.done\<close> of \<^verbatim>\<open>reset\<close>. Every round makes socket calls, so
  over a \<open>network\<close> list, which is finite, it ends: at the latest with the timeout of a
  silent remote.
\<close>

function quit_loop :: "unit prog" where
  "quit_loop s =
     (if \<not> done_flag s
      then (case quit_episode s of
              (Inl e, s1) \<Rightarrow> (Inl e, s1)
            | (Inr d, s1) \<Rightarrow>
                if \<not> d then quit_loop (s1\<lparr>done_flag := d, clock := clock s1 + 100\<rparr>)
                else (Inr (), s1\<lparr>done_flag := d\<rparr>))
      else (Inr (), s))"
  by pat_completeness auto
termination
proof (relation "measure (\<lambda>s. length (network s))")
  show "wf (measure (\<lambda>s. length (network s)))"
    by simp
next
  fix s :: env and r s1 d
  assume "(r, s1) = quit_episode s" and "r = Inr d"
  then have "length (network s1) < length (network s)"
    by (auto simp: quit_episode_def and_then_def send_client_def recv_client_def
          send_message_def recv_message_def socket_call_def lift_def return_def
          split: option.splits list.splits outcome.splits sum.splits prod.splits if_splits)
  then show "(s1\<lparr>done_flag := d, clock := clock s1 + 100\<rparr>, s) \<in> measure (\<lambda>s. length (network s))"
    by simp
qed

declare quit_loop.simps [simp del]

text \<open>\<^verbatim>\<open>reset\<close>: the \<^verbatim>\<open>try\<close> block, and the \<^verbatim>\<open>finally\<close> clause that runs on every exit.\<close>

definition reset_try :: "config \<Rightarrow> observation prog" where
  "reset_try cfg =
     and_then (\<lambda>s. if \<not> has_init s then init cfg s else (Inr (), s)) (\<lambda>_.
     and_then quit_loop (\<lambda>_.
     start_up cfg))"

definition reset :: "config \<Rightarrow> observation prog" where
  "reset cfg s = (case reset_try cfg s of (r, s') \<Rightarrow> (r, s'\<lparr>seed_value := None\<rparr>))"

subsection \<open>\<^verbatim>\<open>reinit\<close>\<close>

text \<open>
  \<^verbatim>\<open>reinit\<close> talks over a socket of its own, which it closes before it unpacks the
  reply; nothing catches what the calls raise.
\<close>

definition reinit :: "config \<Rightarrow> bool prog" where
  "reinit cfg s =
     (let sock = next_socket s
      in and_then socket_call (\<lambda>_.
         and_then (send_message (Some sock) (''<MalmoEnv'' @ malmo_version cfg @ ''/>'')) (\<lambda>_ s1.
         and_then (send_message (Some sock) (''<Init>'' @ get_token s1 @ ''</Init>'')) (\<lambda>_.
         and_then (recv_message (Some sock)) (\<lambda>reply.
         and_then (lift (unpack_I reply)) (\<lambda>ok.
         return (ok \<noteq> 0)))) s1)) (s\<lparr>next_socket := sock + 1\<rparr>))"

section \<open>Sequences of messages\<close>

text \<open>The first \<open>n\<close> elements of the sequence that alternates between two messages.\<close>

fun alternating :: "'a \<Rightarrow> 'a \<Rightarrow> nat \<Rightarrow> 'a list" where
  "alternating x y 0 = []"
| "alternating x y (Suc n) = x # alternating y x n"

section \<open>A constructed environment\<close>

text \<open>
  The state that \<^verbatim>\<open>__init__\<close> leaves: no mission document, no socket, no seed,
  \<^verbatim>\<open>done\<close> set, and the first launched instance, with handle 0, in a quiet world.
\<close>

definition initial_env :: env where
  "initial_env =
     \<lparr>has_init = False, xml = [], exp_uid = [], role = 0, agent_count = 0,
      synchronous = True, resets = 0, seed_value = None, done_flag = True,
      had_to_clean = False, client_socket = None, instance_handle = 0,
      width = 0, height = 0, depth = 0, last_pov = None,
      clock = 0, network = [], sent = [], launches = [], killed = [],
      next_handle = 1, next_socket = 0, bind_logged = []\<rparr>"

text \<open>
  An environment with one enumerated and one continuous action, and the observation
  keys \<^verbatim>\<open>pov\<close> and \<^verbatim>\<open>inventory\<close> over the items log and dirt. Its JSON reader knows
  the empty object only.
\<close>

definition example_config :: config where
  "example_config =
     \<lparr>action_space = [(''turn'', Enum [''none'', ''left'', ''right'']), (''camera'', Box)],
      observation_space = [(''pov'', PlainSpace), (''inventory'', DictSpace [''log'', ''dirt''])],
      observation_sample = [(''pov'', Pov []), (''inventory'', Inventory [(''log'', 0), (''dirt'', 0)])],
      obs_handlers = DEFAULT_OBS_HANDLERS (\<lambda>info obs_space. Inr (Custom ''0'')),
      utf8_decode = Some,
      json_loads = (\<lambda>text. if text = ''{}'' then Some \<lparr>inventory = None, pov = None\<rparr> else None),
      mission = Inr (''<MissionInit/>'', 2, 1, 3),
      uuid4 = ''exp'',
      malmo_version = ''0.37.0'',
      retry_budget = 2\<rparr>"

section \<open>Action marshalling: properties\<close>





section \<open>The inventory handler: properties\<close>

lemma map_fst_adjust: "map fst (map (\<lambda>(k, n). (k, g k n)) d) = map fst d"
  by (induction d) auto

text \<open>On a dictionary, whose keys are distinct, \<^verbatim>\<open>+=\<close> changes the entry of the key alone.\<close>

lemma dict_add_distinct:
  "distinct (map fst d) \<Longrightarrow>
   dict_add d k q =
     (if k \<in> fst ` set d then Some (map (\<lambda>(k', n). (k', if k' = k then n + q else n)) d) else None)"
proof (induction d)
  case Nil
  then show ?case by simp
next
  case (Cons p d)
  obtain k' n where p: "p = (k', n)" by (cases p)
  from Cons.prems have dist: "distinct (map fst d)" and fresh: "k' \<notin> fst ` set d"
    by (auto simp: p)
  show ?case
  proof (cases "k' = k")
    case True
    with fresh have "map (\<lambda>(k', n). (k', if k' = k then n + q else n)) d = d"
      by (induction d) auto
    with True show ?thesis by (simp add: p)
  next
    case False
    then show ?thesis
      using Cons.IH [OF dist] by (auto simp: p)
  qed
qed

lemma count_stacks_totals:
  "distinct (map fst d) \<Longrightarrow>
   count_stacks sts d =
     map (\<lambda>(k, n). (k, n + sum_list (map (\<lambda>st. the (quantity st))
           (filter (\<lambda>st. quantity st \<noteq> None \<and> map_option item_name (stack_type st) = Some k) sts)))) d"
proof (induction sts arbitrary: d)
  case Nil
  then show ?case by (simp add: case_prod_unfold)
next
  case (Cons st sts)
  show ?case
  proof (cases "stack_type st")
    case None
    then show ?thesis using Cons by simp
  next
    case (Some t)
    note t = this
    show ?thesis
    proof (cases "quantity st")
      case None
      then show ?thesis using Cons t by simp
    next
      case (Some q)
      show ?thesis
      proof (cases "item_name t \<in> fst ` set d")
        case True
        let ?d' = "map (\<lambda>(k', n). (k', if k' = item_name t then n + q else n)) d"
        have add: "dict_add d (item_name t) q = Some ?d'"
          using dict_add_distinct [OF Cons.prems, of "item_name t" q] True by simp
        have "distinct (map fst ?d')"
          using Cons.prems by (simp only: map_fst_adjust)
        from Cons.IH [OF this] add t Some show ?thesis
          by auto
      next
        case False
        have add: "dict_add d (item_name t) q = None"
          using dict_add_distinct [OF Cons.prems, of "item_name t" q] False by simp
        have "\<forall>p \<in> set d. fst p \<noteq> item_name t"
          using False by force
        with Cons.IH [OF Cons.prems] add t Some show ?thesis
          by (auto simp: case_prod_unfold)
      qed
    qed
  qed
qed

text \<open>
  C8. With \<open>items\<close> the item names declared in the inventory observation space (the
  keys of a dictionary, hence distinct), the inventory handler returns the dictionary
  that gives every declared name, in declaration order, the sum of \<open>quantity\<close> over the
  stacks of the info payload that have a quantity and whose \<open>type\<close>, with \<^verbatim>\<open>log2\<close>
  renamed to \<^verbatim>\<open>log\<close>, is that name; stacks of other types add nothing, and a payload
  without inventory gives all zeros. The witness is the example of the claim: declared
  log and dirt, stacks of 3 \<^verbatim>\<open>log2\<close> and 5 dirt, result log 3 and dirt 5.
\<close>

theorem inventory_observation_sums:
  assumes "map_of obs_space ''inventory'' = Some (DictSpace items)"
    and "distinct items"
  shows "inventory_observation info obs_space =
           Inr (Inventory (map (\<lambda>k. (k, sum_list (map (\<lambda>st. the (quantity st))
                  (filter (\<lambda>st. quantity st \<noteq> None \<and> map_option item_name (stack_type st) = Some k)
                     (case inventory info of None \<Rightarrow> [] | Some stacks \<Rightarrow> stacks))))) items))"
proof -
  have d: "distinct (map fst (map (\<lambda>k. (k, 0::int)) items))"
    using assms(2) by (simp add: comp_def)
  show ?thesis
    using assms(1) count_stacks_totals [OF d]
    by (simp add: inventory_observation_def comp_def split: option.splits)
qed

theorem inventory_observation_sums_witness:
  "map_of [(''pov'', PlainSpace), (''inventory'', DictSpace [''log'', ''dirt''])] ''inventory''
     = Some (DictSpace [''log'', ''dirt''])
   \<and> distinct [''log'', ''dirt'']
   \<and> inventory_observation
       \<lparr>inventory = Some [\<lparr>stack_type = Some ''log2'', quantity = Some 3\<rparr>,
                           \<lparr>stack_type = Some ''dirt'', quantity = Some 5\<rparr>], pov = None\<rparr>
       [(''pov'', PlainSpace), (''inventory'', DictSpace [''log'', ''dirt''])]
     = Inr (Inventory [(''log'', 3), (''dirt'', 5)])"
proof -
  have h1: "map_of [(''pov'', PlainSpace), (''inventory'', DictSpace [''log'', ''dirt''])] ''inventory''
     = Some (DictSpace [''log'', ''dirt''])" by simp
  have h2: "distinct [''log'', ''dirt'']" by simp
  show ?thesis
    using h1 h2 inventory_observation_sums [OF h1 h2, of
       "\<lparr>inventory = Some [\<lparr>stack_type = Some ''log2'', quantity = Some 3\<rparr>,
                           \<lparr>stack_type = Some ''dirt'', quantity = Some 5\<rparr>], pov = None\<rparr>"]
    by (simp add: item_name_def)
qed

section \<open>The recovery procedure: properties\<close>















lemmas run_defs = step_def step_try_def step_exchange_def process_action_def component_def
  tuple_index_def newline_def and_then_def send_client_def recv_client_def send_message_def
  recv_message_def socket_call_def lift_def return_def clean_connection_def
  robust_launch_new_instance_def attempt_launch_new_instance_def initial_env_def
  example_config_def Let_def SOCKTIME_def STEP_OPTIONS_def





section \<open>\<^verbatim>\<open>step\<close>: properties\<close>




text \<open>
  C5. For an action that marshals without error, \<^verbatim>\<open>step\<close> on a finished episode
  raises the \<^verbatim>\<open>RuntimeError\<close> of a finished episode and leaves the whole state as it
  was; in particular nothing is added to the messages sent.
\<close>

theorem step_finished_episode:
  assumes "process_action (action_space cfg) action = Inr cmd"
    and "done_flag s"
  shows "step cfg action s = (Inl (RuntimeError ''Attempted to step an environment with done=True''), s)
       \<and> sent (snd (step cfg action s)) = sent s"
  using assms by (simp add: step_def step_try_def)

theorem step_finished_episode_witness:
  "process_action (action_space example_config) [(''turn'', PyStr ''right'')] = Inr ''turn right''
   \<and> done_flag initial_env
   \<and> step example_config [(''turn'', PyStr ''right'')] initial_env
       = (Inl (RuntimeError ''Attempted to step an environment with done=True''), initial_env)
   \<and> sent (snd (step example_config [(''turn'', PyStr ''right'')] initial_env)) = []"
proof -
  have h1: "process_action (action_space example_config) [(''turn'', PyStr ''right'')] = Inr ''turn right''"
    by (simp add: run_defs)
  have h2: "done_flag initial_env"
    by (simp add: initial_env_def)
  have "sent initial_env = []"
    by (simp add: initial_env_def)
  with step_finished_episode [OF h1 h2] h1 h2 show ?thesis
    by simp
qed

text \<open>
  C10. Whenever the \<^verbatim>\<open>try\<close> block of \<^verbatim>\<open>step\<close> returns (the step is successful, not
  degraded), \<^verbatim>\<open>step\<close> returns that very tuple, and its fourth element, the info map,
  is empty: the JSON payload goes into the observation only.
\<close>

theorem step_success_info_empty:
  assumes "process_action (action_space cfg) action = Inr cmd"
    and "step_try cfg cmd s = (Inr (ob, reward, d, extra), s1)"
  shows "step cfg action s = (Inr (ob, reward, d, extra), s1) \<and> extra = []"
proof -
  have "\<not> done_flag s"
    using assms(2) by (auto simp: step_try_def split: if_splits)
  then have "step_exchange cfg cmd s = (Inr (ob, reward, d, extra), s1)"
    using assms(2) by (simp add: step_try_def)
  then have "extra = []"
    unfolding step_exchange_def Let_def and_then_def lift_def return_def
    by (auto split: prod.splits sum.splits if_splits)
  then show ?thesis
    using assms by (simp add: step_def)
qed


lemma str_int_0: "str_int 0 = ''0''"
  by code_simp

theorem step_success_info_empty_witness:
  "process_action (action_space example_config) [(''turn'', PyInt 1)] = Inr ''turn left''
   \<and> step_try example_config ''turn left''
        (initial_env\<lparr>done_flag := False, client_socket := Some 0, width := 2, height := 1, depth := 3,
           network := [(5, Completes []), (5, Completes []),
                       (5, Completes [CHR 0x00, CHR 0x00, CHR 0x00, CHR 0x00, CHR 0x00, CHR 0x00,
                                      CHR 0x00, CHR 0x00, CHR 0x00, CHR 0x01]),
                       (5, Completes ''{}'')]\<rparr>)
      = (Inr ([(''pov'', Pov (zeros 1 2 3)), (''inventory'', Inventory [(''log'', 0), (''dirt'', 0)])],
              Float64 0, False, []),
         initial_env\<lparr>done_flag := False, client_socket := Some 0, width := 2, height := 1, depth := 3,
           network := [], clock := 20, sent := [''<Step0>turn left</Step0 >''],
           last_pov := Some (zeros 1 2 3)\<rparr>)
   \<and> step example_config [(''turn'', PyInt 1)]
        (initial_env\<lparr>done_flag := False, client_socket := Some 0, width := 2, height := 1, depth := 3,
           network := [(5, Completes []), (5, Completes []),
                       (5, Completes [CHR 0x00, CHR 0x00, CHR 0x00, CHR 0x00, CHR 0x00, CHR 0x00,
                                      CHR 0x00, CHR 0x00, CHR 0x00, CHR 0x01]),
                       (5, Completes ''{}'')]\<rparr>)
      = (Inr ([(''pov'', Pov (zeros 1 2 3)), (''inventory'', Inventory [(''log'', 0), (''dirt'', 0)])],
              Float64 0, False, []),
         initial_env\<lparr>done_flag := False, client_socket := Some 0, width := 2, height := 1, depth := 3,
           network := [], clock := 20, sent := [''<Step0>turn left</Step0 >''],
           last_pov := Some (zeros 1 2 3)\<rparr>)"
proof -
  let ?s = "initial_env\<lparr>done_flag := False, client_socket := Some 0, width := 2, height := 1, depth := 3,
           network := [(5, Completes []), (5, Completes []),
                       (5, Completes [CHR 0x00, CHR 0x00, CHR 0x00, CHR 0x00, CHR 0x00, CHR 0x00,
                                      CHR 0x00, CHR 0x00, CHR 0x00, CHR 0x01]),
                       (5, Completes ''{}'')]\<rparr>"
  have h1: "process_action (action_space example_config) [(''turn'', PyInt 1)] = Inr ''turn left''"
    by (simp add: run_defs)
  have h2: "step_try example_config ''turn left'' ?s
      = (Inr ([(''pov'', Pov (zeros 1 2 3)), (''inventory'', Inventory [(''log'', 0), (''dirt'', 0)])],
              Float64 0, False, []),
         initial_env\<lparr>done_flag := False, client_socket := Some 0, width := 2, height := 1, depth := 3,
           network := [], clock := 20, sent := [''<Step0>turn left</Step0 >''],
           last_pov := Some (zeros 1 2 3)\<rparr>)"
    by (simp add: run_defs str_int_0 unpack_dbb_def be_nat_def signed_byte_def decode_def
          process_observation_def frame_of_def DEFAULT_OBS_HANDLERS_def pov_observation_def
          inventory_observation_def)
  from step_success_info_empty [OF h1 h2] h1 h2 show ?thesis
    by simp
qed

section \<open>\<^verbatim>\<open>reset\<close> and the seed\<close>

text \<open>
  C9. Whatever \<^verbatim>\<open>reset\<close> returns or raises, the stored seed is \<open>None\<close> in the state
  it leaves. So after \<^verbatim>\<open>seed(v)\<close> and one \<^verbatim>\<open>reset\<close> the seed is gone, and the token
  of a later mission-init has no seed component.
\<close>

theorem reset_clears_seed:
  "seed_value (snd (reset cfg s)) = None
   \<and> seed_value (snd (reset cfg (seed v s))) = None
   \<and> mission_token (snd (reset cfg (seed v s)))
       = get_token (snd (reset cfg (seed v s))) @ '':''
         @ str_int (agent_count (snd (reset cfg (seed v s)))) @ '':''
         @ str_bool_lower (synchronous (snd (reset cfg (seed v s))))"
proof -
  have clear: "seed_value (snd (reset cfg s')) = None" for s'
    by (simp add: reset_def split: prod.splits)
  have "mission_token (snd (reset cfg (seed v s)))
       = get_token (snd (reset cfg (seed v s))) @ '':''
         @ str_int (agent_count (snd (reset cfg (seed v s)))) @ '':''
         @ str_bool_lower (synchronous (snd (reset cfg (seed v s))))"
    unfolding mission_token_def by (simp add: clear)
  with clear show ?thesis
    by blast
qed

section \<open>The session token on the wire\<close>

lemma alternating_two: "x # y # alternating x y m = alternating x y (Suc (Suc m))"
  by simp

lemma send_client_sent:
  "send_client msg s = (r, s') \<Longrightarrow>
     xml s' = xml s \<and> mission_token s' = mission_token s
     \<and> (\<forall>e. r = Inl e \<longrightarrow> sent s' = sent s) \<and> (\<forall>u. r = Inr u \<longrightarrow> sent s' = sent s @ [msg])"
  by (auto simp: send_client_def send_message_def socket_call_def mission_token_def get_token_def
      split: option.splits list.splits outcome.splits)

lemma recv_client_sent:
  "recv_client s = (r, s') \<Longrightarrow>
     xml s' = xml s \<and> mission_token s' = mission_token s \<and> sent s' = sent s"
  by (auto simp: recv_client_def recv_message_def socket_call_def mission_token_def get_token_def
      split: option.splits list.splits outcome.splits)

lemma log_shows_bind_exception_sent:
  "log_shows_bind_exception s = (b, s') \<Longrightarrow>
     xml s' = xml s \<and> mission_token s' = mission_token s \<and> sent s' = sent s"
  by (auto simp: log_shows_bind_exception_def mission_token_def get_token_def split: list.splits)

lemma init_mission_loop_sent:
  "init_mission_loop n s = (r, s') \<Longrightarrow>
     \<exists>m. sent s' = sent s @ alternating (xml s) (mission_token s) m"
proof (induction n s arbitrary: r s' rule: init_mission_loop.induct)
  case (1 n s)
  obtain r1 s1 where c1: "send_client (xml s) s = (r1, s1)" by force
  note f1 = send_client_sent [OF c1]
  show ?case
  proof (cases r1)
    case (Inl e)
    with "1.prems" c1 f1 have "sent s' = sent s @ alternating (xml s) (mission_token s) 0"
      by (subst (asm) init_mission_loop.simps) auto
    then show ?thesis by blast
  next
    case (Inr u1)
    obtain r2 s2 where c2: "send_client (mission_token s1) s1 = (r2, s2)" by force
    note f2 = send_client_sent [OF c2]
    show ?thesis
    proof (cases r2)
      case (Inl e)
      with "1.prems" c1 f1 c2 f2 Inr have "sent s' = sent s @ alternating (xml s) (mission_token s) 1"
        by (subst (asm) init_mission_loop.simps) auto
      then show ?thesis by blast
    next
      case (Inr u2)
      note r2 = this
      obtain r3 s3 where c3: "recv_client s2 = (r3, s3)" by force
      note f3 = recv_client_sent [OF c3]
      have two: "sent s3 = sent s @ alternating (xml s) (mission_token s) 2"
        using f1 f2 f3 \<open>r1 = Inr u1\<close> r2 by (simp add: numeral_2_eq_2)
      have same: "xml s3 = xml s" "mission_token s3 = mission_token s"
        using f1 f2 f3 by simp_all
      show ?thesis
      proof (cases "\<exists>reply ok. r3 = Inr reply \<and> unpack_I reply = Inr ok \<and> ok \<noteq> 1 \<and> \<not> n + 1 > MAX_WAIT
                     \<and> fst (log_shows_bind_exception s3) = False")
        case False
        have "sent s' = sent s3"
          using "1.prems" c1 c2 c3 \<open>r1 = Inr u1\<close> r2 False
          by (subst (asm) init_mission_loop.simps)
             (auto split: sum.splits prod.splits if_splits bool.splits
                   dest: log_shows_bind_exception_sent)
        with two show ?thesis by metis
      next
        case True
        then obtain reply ok s4 where
          t: "r3 = Inr reply" "unpack_I reply = Inr ok" "ok \<noteq> 1" "\<not> n + 1 > MAX_WAIT"
             "log_shows_bind_exception s3 = (False, s4)"
          by (metis prod.collapse)
        note f4 = log_shows_bind_exception_sent [OF t(5)]
        have rec: "init_mission_loop (n + 1) (s4\<lparr>clock := clock s4 + 1000\<rparr>) = (r, s')"
          using "1.prems" c1 c2 c3 \<open>r1 = Inr u1\<close> r2 t
          by (subst (asm) init_mission_loop.simps) simp
        have "\<exists>m. sent s' = sent (s4\<lparr>clock := clock s4 + 1000\<rparr>)
                 @ alternating (xml (s4\<lparr>clock := clock s4 + 1000\<rparr>))
                               (mission_token (s4\<lparr>clock := clock s4 + 1000\<rparr>)) m"
          using "1.IH" [OF c1 [symmetric] \<open>r1 = Inr u1\<close> c2 [symmetric] r2 c3 [symmetric] t(1) t(2) t(3) t(4) t(5) [symmetric] _ rec]
          by simp
        then obtain m where "sent s' = sent s4 @ alternating (xml s4) (mission_token s4) m"
          by (auto simp: mission_token_def get_token_def)
        with f4 same two have "sent s' = sent s @ alternating (xml s) (mission_token s) (Suc (Suc m))"
          by (simp add: numeral_2_eq_2)
        then show ?thesis by blast
      qed
    qed
  qed
qed

lemma str_int_1: "str_int 1 = ''1''"
  by code_simp

lemma str_int_42: "str_int 42 = ''42''"
  by code_simp

lemma reinit_sent:
  "sent (snd (reinit cfg s)) \<in>
     {sent s,
      sent s @ [''<MalmoEnv'' @ malmo_version cfg @ ''/>''],
      sent s @ [''<MalmoEnv'' @ malmo_version cfg @ ''/>'', ''<Init>'' @ get_token s @ ''</Init>'']}"
  unfolding reinit_def Let_def and_then_def lift_def return_def send_message_def recv_message_def
    socket_call_def get_token_def
  by (auto split: list.splits outcome.splits sum.splits prod.splits option.splits)

text \<open>
  C4. The token sent in the mission-init handshake is the colon-joined string of the
  experiment id, the role, the reset count, the agent count and the lower-case
  synchronous flag, followed by a seed component exactly when a seed is set; what
  \<^verbatim>\<open>_init_mission\<close> puts on the wire is the mission document and that token in
  alternation. What \<^verbatim>\<open>reinit\<close> sends is the greeting and the three-part token of
  \<^verbatim>\<open>_get_token\<close> inside \<^verbatim>\<open><Init>\<close>, with no seed. The counterexample is a
  mission-init with seed 42 whose token has the agent count and the synchronous flag
  between the reset count and the seed.
\<close>

theorem mission_token_sent:
  "mission_token s =
     exp_uid s @ '':'' @ str_int (role s) @ '':'' @ str_int (resets s)
     @ '':'' @ str_int (agent_count s) @ '':'' @ str_bool_lower (synchronous s)
     @ (case seed_value s of None \<Rightarrow> [] | Some v \<Rightarrow> '':'' @ str_int v)
   \<and> (\<exists>m. sent (snd (init_mission s)) = sent s @ alternating (xml s) (mission_token s) m)
   \<and> sent (snd (reinit cfg s)) \<in>
       {sent s,
        sent s @ [''<MalmoEnv'' @ malmo_version cfg @ ''/>''],
        sent s @ [''<MalmoEnv'' @ malmo_version cfg @ ''/>'',
                  ''<Init>'' @ exp_uid s @ '':'' @ str_int (role s) @ '':'' @ str_int (resets s)
                  @ ''</Init>'']}"
proof (intro conjI)
  show "mission_token s =
     exp_uid s @ '':'' @ str_int (role s) @ '':'' @ str_int (resets s)
     @ '':'' @ str_int (agent_count s) @ '':'' @ str_bool_lower (synchronous s)
     @ (case seed_value s of None \<Rightarrow> [] | Some v \<Rightarrow> '':'' @ str_int v)"
    by (simp add: mission_token_def get_token_def)
next
  obtain r s' where "init_mission_loop 0 s = (r, s')"
    by force
  from init_mission_loop_sent [OF this] this
  show "\<exists>m. sent (snd (init_mission s)) = sent s @ alternating (xml s) (mission_token s) m"
    by (simp add: init_mission_def)
next
  show "sent (snd (reinit cfg s)) \<in>
       {sent s,
        sent s @ [''<MalmoEnv'' @ malmo_version cfg @ ''/>''],
        sent s @ [''<MalmoEnv'' @ malmo_version cfg @ ''/>'',
                  ''<Init>'' @ exp_uid s @ '':'' @ str_int (role s) @ '':'' @ str_int (resets s)
                  @ ''</Init>'']}"
    using reinit_sent [of cfg s] by (simp add: get_token_def)
qed

theorem mission_token_counterexample:
  "seed_value (initial_env\<lparr>xml := ''<MissionInit/>'', exp_uid := ''exp'', agent_count := 1, resets := 1,
        seed_value := Some 42, client_socket := Some 0,
        network := [(1, Completes []), (1, Completes []),
                    (1, Completes [CHR 0x00, CHR 0x00, CHR 0x00, CHR 0x01])]\<rparr>) = Some 42
   \<and> sent (snd (init_mission (initial_env\<lparr>xml := ''<MissionInit/>'', exp_uid := ''exp'', agent_count := 1,
        resets := 1, seed_value := Some 42, client_socket := Some 0,
        network := [(1, Completes []), (1, Completes []),
                    (1, Completes [CHR 0x00, CHR 0x00, CHR 0x00, CHR 0x01])]\<rparr>)))
       = [''<MissionInit/>'', ''exp:0:1:1:true:42'']
   \<and> ''exp:0:1:1:true:42'' \<noteq> ''exp'' @ '':'' @ str_int 0 @ '':'' @ str_int 1 @ '':'' @ str_int 42"
  unfolding init_mission_def
  by (subst init_mission_loop.simps)
     (simp add: run_defs mission_token_def get_token_def str_int_0 str_int_1 str_int_42
        str_bool_lower_def unpack_I_def be_nat_def)

section \<open>The initial peek: properties\<close>





lemma process_observation_sent:
  "process_observation cfg raw txt s = (r, s') \<Longrightarrow> sent s' = sent s"
  by (auto simp: process_observation_def split: sum.splits option.splits)

lemma peek_obs_sent:
  "sent (snd (peek_obs cfg s)) \<in> {sent s, sent s @ [''<Peek/>'']}"
proof (cases "done_flag s")
  case True
  then show ?thesis by (simp add: peek_obs_def)
next
  case False
  obtain r s' where run: "peek_obs cfg s = (r, s')"
    by force
  obtain r1 s1 where c1: "send_client ''<Peek/>'' s = (r1, s1)"
    by force
  from send_client_sent [OF c1] have s1: "sent s1 \<in> {sent s, sent s @ [''<Peek/>'']}"
    by (cases r1) auto
  have "sent s' = sent s1"
    using run False c1
    unfolding peek_obs_def Let_def and_then_def lift_def empty_buffer_check_def
      first_frame_check_def sleep_def
    by (auto split: prod.splits sum.splits if_splits
        dest!: recv_client_sent process_observation_sent)
  with s1 run show ?thesis
    by simp
qed

text \<open>
  C3. The claim is that the initial peek polls: that on an empty pixel buffer the
  \<^verbatim>\<open><Peek/>\<close> request is sent again until a frame arrives or \<open>MAX_WAIT\<close> seconds
  have passed. \<^verbatim>\<open>_peek_obs\<close> does not: whatever the remote answers, it puts at most
  one \<^verbatim>\<open><Peek/>\<close> on the wire. On an empty buffer with the completion flag 0 that
  arrives in time it sleeps a tenth of a second and returns an observation with a
  zero-filled frame, leaving unread the frame that the remote holds ready for a second
  request.
\<close>

theorem peek_obs_no_poll:
  "sent (snd (peek_obs cfg s)) \<in> {sent s, sent s @ [''<Peek/>'']}
   \<and> peek_obs example_config
        (initial_env\<lparr>done_flag := False, client_socket := Some 0, width := 2, height := 1, depth := 3,
           network := [(1, Completes []), (1, Completes []), (1, Completes ''{}''), (1, Completes [CHR 0x00]),
                       (1, Completes []), (1, Completes ''abcdef''), (1, Completes ''{}''),
                       (1, Completes [CHR 0x00])]\<rparr>)
     = (Inr [(''pov'', Pov (zeros 1 2 3)), (''inventory'', Inventory [(''log'', 0), (''dirt'', 0)])],
        initial_env\<lparr>done_flag := False, client_socket := Some 0, width := 2, height := 1, depth := 3,
           network := [(1, Completes []), (1, Completes ''abcdef''), (1, Completes ''{}''),
                       (1, Completes [CHR 0x00])],
           clock := 104, sent := [''<Peek/>''], last_pov := Some (zeros 1 2 3)\<rparr>)"
proof (intro conjI)
  show "sent (snd (peek_obs cfg s)) \<in> {sent s, sent s @ [''<Peek/>'']}"
    by (rule peek_obs_sent)
next
  show "peek_obs example_config
        (initial_env\<lparr>done_flag := False, client_socket := Some 0, width := 2, height := 1, depth := 3,
           network := [(1, Completes []), (1, Completes []), (1, Completes ''{}''), (1, Completes [CHR 0x00]),
                       (1, Completes []), (1, Completes ''abcdef''), (1, Completes ''{}''),
                       (1, Completes [CHR 0x00])]\<rparr>)
     = (Inr [(''pov'', Pov (zeros 1 2 3)), (''inventory'', Inventory [(''log'', 0), (''dirt'', 0)])],
        initial_env\<lparr>done_flag := False, client_socket := Some 0, width := 2, height := 1, depth := 3,
           network := [(1, Completes []), (1, Completes ''abcdef''), (1, Completes ''{}''),
                       (1, Completes [CHR 0x00])],
           clock := 104, sent := [''<Peek/>''], last_pov := Some (zeros 1 2 3)\<rparr>)"
    by (simp add: peek_obs_def run_defs decode_def unpack_b_def signed_byte_def
          empty_buffer_check_def first_frame_check_def sleep_def MAX_WAIT_def
          process_observation_def frame_of_def DEFAULT_OBS_HANDLERS_def pov_observation_def
          inventory_observation_def)
qed








end
